theory Spec2Isabelle
  imports Complex_Main "HOL-Library.Word" "HOL-Library.Signed_Division"
begin

section \<open>Radiometric kernel (EnergyMaths.cpp)\<close>

text \<open>
  The functions of \<^verbatim>\<open>EnergyMaths\<close> take and return C++ \<^verbatim>\<open>double\<close>s. They are
  embedded over \<^typ>\<open>real\<close>: every arithmetic operation is exact, so rounding,
  overflow, underflow and the non-finite values of IEEE 754 are outside the model. A
  statement about these definitions is a statement about the program only where the
  \<^verbatim>\<open>double\<close> computation is exact or the statement does not depend on the rounding.
\<close>

subsection \<open>Constants of MathConstants.h\<close>

definition PI_SQUARED_2 :: real where
  \<comment> \<open>Modelled from the spec: \<^verbatim>\<open>maths/MathConstants.h\<close> is absent; the spec writes the
      factor of the emitted power as \<open>2\<pi>\<^sup>2\<close>.\<close>
  "PI_SQUARED_2 = 2 * pi * pi"

definition PI_4 :: real where
  \<comment> \<open>Modelled from the spec: \<^verbatim>\<open>maths/MathConstants.h\<close> is absent; the spec writes the
      factor of the cross-section and of the radar equation as \<open>4\<pi>\<close>.\<close>
  "PI_4 = 4 * pi"

definition PI_HALF :: real where
  \<comment> \<open>Modelled from the spec: \<^verbatim>\<open>maths/MathConstants.h\<close> is absent; the spec writes the
      threshold of the specular angle as \<open>\<pi>/2\<close>.\<close>
  "PI_HALF = pi / 2"

subsection \<open>Library functions of cmath\<close>

definition pow_d :: "real \<Rightarrow> real \<Rightarrow> real" where
  \<comment> \<open>\<^verbatim>\<open>pow(x, y)\<close> of the C library for a base \<open>x \<ge> 0\<close>: \<^verbatim>\<open>pow(x, 0)\<close> is 1 for every
      \<open>x\<close> (also for 0), \<^verbatim>\<open>pow(0, y)\<close> is 0 for \<open>y > 0\<close>. For \<open>x = 0\<close> and \<open>y < 0\<close> the
      library returns infinity, and for \<open>x < 0\<close> and a fractional \<open>y\<close> a NaN; neither
      is a real number, and no statement below depends on these arguments.\<close>
  "pow_d x y = (if y = 0 then 1 else x powr y)"

subsection \<open>Emitted and received power\<close>

definition calcEmittedPower :: "real \<Rightarrow> real \<Rightarrow> real \<Rightarrow> real \<Rightarrow> real \<Rightarrow> real \<Rightarrow> real" where
  "calcEmittedPower I0 lambda R R0 r w0 =
     (let denom = lambda * lambda * (R0 * R0 + R * R)
      in I0 / exp (PI_SQUARED_2 * r * r * w0 * w0 / denom))"

definition calcEmittedPowerLegacy :: "real \<Rightarrow> real \<Rightarrow> real \<Rightarrow> real \<Rightarrow> real \<Rightarrow> real \<Rightarrow> real" where
  "calcEmittedPowerLegacy I0 lambda R R0 r w0 =
     (let denom = pi * w0 * w0;
          omega = (lambda * R) / denom;
          omega0 = (lambda * R0) / denom;
          w = w0 * sqrt (omega0 * omega0 + omega * omega)
      in I0 * exp ((- 2 * r * r) / (w * w)))"

definition calcReceivedPower ::
  "real \<Rightarrow> real \<Rightarrow> real \<Rightarrow> real \<Rightarrow> real \<Rightarrow> real \<Rightarrow> real \<Rightarrow> real \<Rightarrow> real \<Rightarrow> real \<Rightarrow> real \<Rightarrow> real" where
  "calcReceivedPower I0 lambda R R0 r w0 Dr2 Bt2 etaSys ae sigma =
     (let Rsquared = R * R;
          numer = I0 * Dr2 * etaSys * sigma;
          expon = exp ((PI_SQUARED_2 * r * r * w0 * w0) / (lambda * lambda * (R0 * R0 + Rsquared))
                       + 2 * R * ae);
          denom = PI_4 * Rsquared * Rsquared * Bt2 * expon
      in numer / denom)"

definition calcReceivedPowerLegacy ::
  "real \<Rightarrow> real \<Rightarrow> real \<Rightarrow> real \<Rightarrow> real \<Rightarrow> real \<Rightarrow> real \<Rightarrow> real" where
  \<comment> \<open>\<^verbatim>\<open>pow(R, 4)\<close> has the integer exponent 4: the fourth power, for every sign of \<open>R\<close>.\<close>
  "calcReceivedPowerLegacy Pe Dr2 R Bt2 etaSys etaAtm sigma =
     (Pe * Dr2) / (PI_4 * R ^ 4 * Bt2) * etaSys * etaAtm * sigma"

subsection \<open>Atmospheric attenuation, cross-section, lighting\<close>

definition calcAtmosphericFactor :: "real \<Rightarrow> real \<Rightarrow> real" where
  "calcAtmosphericFactor R ae = exp (- 2 * R * ae)"

definition calcCrossSection :: "real \<Rightarrow> real \<Rightarrow> real \<Rightarrow> real" where
  "calcCrossSection f Alf theta = PI_4 * f * Alf * cos theta"

definition phongBDRF :: "real \<Rightarrow> real \<Rightarrow> real \<Rightarrow> real" where
  \<comment> \<open>\<^verbatim>\<open>abs\<close> is taken at its floating-point overload, the absolute value of a
      \<^verbatim>\<open>double\<close>.\<close>
  "phongBDRF incidenceAngle targetSpecularity targetSpecularExponent =
     (let ks = targetSpecularity;
          kd = 1 - ks;
          diffuse = kd * cos incidenceAngle;
          specularAngle = (if incidenceAngle \<le> PI_HALF
                           then incidenceAngle else incidenceAngle - PI_HALF);
          specular = ks * pow_d \<bar>cos specularAngle\<bar> targetSpecularExponent
      in diffuse + specular)"

section \<open>Simulation controller (Simulation.cpp)\<close>

text \<open>
  \<^verbatim>\<open>Simulation.h\<close> and the classes of the collaborators (scanner, platform, scene,
  step loop, reporter, date-time utilities) are absent from the sources. The Controller is
  embedded sequentially: its fields are a record, every call it makes to code outside
  \<^verbatim>\<open>Simulation.cpp\<close> is appended to a trace, and the effect of such a call is a
  parameter. The \<^verbatim>\<open>double\<close> fields are reals, as above. Locks are trace events;
  blocking on the pause mutex and other threads are outside the model.
\<close>

subsection \<open>Data\<close>

type_synonym measurement = nat
type_synonym trajectory = nat

datatype call =
    PreStartReport
  | PreFinishReport
  | PostFinishReport
  | PlatformPrepareSimulation real
  | ScannerPrepareSimulation
  | BuildScanningPulseProcess int
  | ScenePrepareSimulation int
  | PlatformDoSimStep real
  | ScannerDoSimStep nat real
  | SceneDoSimStep
  | OnLegComplete
  | OnSimulationFinished
  | LockCycleMeasurementsMutex
  | UnlockCycleMeasurementsMutex
  | Callback "measurement list" "trajectory list" string
  | NotifyAll
  | LogInfoSimSpeed real
  | LogErr string

text \<open>
  What the Controller reaches through \<^verbatim>\<open>mScanner\<close>: the two cycle buffers, which it
  reads and clears itself, and the private state \<open>priv\<close> of scanner, platform and scene.
\<close>

record 'x scanner =
  cycleMeasurements :: "measurement list"
  cycleTrajectories :: "trajectory list"
  priv :: 'x

text \<open>
  The fields of the Controller. \<open>currentStep\<close> and \<open>period\<close> are those of its step loop;
  \<open>callback\<close> is \<open>None\<close> for the null pointer; \<open>calls\<close> is the trace.
\<close>

record 'x simulation =
  parallelizationStrategy :: int
  fixedGpsTimeStart :: string
  mScanner :: "'x scanner"
  mCurrentLegIndex :: nat
  currentGpsTime_ns :: real
  stepGpsTime_ns :: real
  currentStep :: nat
  period :: real
  mSimSpeedFactor :: real
  mStopped :: bool
  finished :: bool
  exportToFile :: bool
  callback :: "unit option"
  callbackFrequency :: "64 word"
  calls :: "call list"

text \<open>
  The operations of the collaborators, and the virtual leg-completion handler
  \<^verbatim>\<open>onLegComplete\<close>, which a derived class implements. A collaborator acts on the
  scanner aggregate only; the handler is a member function and may change any field.
\<close>

record 'x env =
  getPulseFreq_Hz :: "'x scanner \<Rightarrow> real"
  rotateCompleted :: "'x scanner \<Rightarrow> bool"
  waypointReached :: "'x scanner \<Rightarrow> bool"
  platform_prepareSimulation :: "real \<Rightarrow> 'x scanner \<Rightarrow> 'x scanner"
  scanner_prepareSimulation :: "'x scanner \<Rightarrow> 'x scanner"
  buildScanningPulseProcess :: "int \<Rightarrow> 'x scanner \<Rightarrow> 'x scanner"
  scene_prepareSimulation :: "int \<Rightarrow> 'x scanner \<Rightarrow> 'x scanner"
  platform_doSimStep :: "real \<Rightarrow> 'x scanner \<Rightarrow> 'x scanner"
  scanner_doSimStep :: "nat \<Rightarrow> real \<Rightarrow> 'x scanner \<Rightarrow> 'x scanner"
  scene_doSimStep :: "'x scanner \<Rightarrow> 'x scanner"
  onSimulationFinished :: "'x scanner \<Rightarrow> 'x scanner"
  getMeasurementWriterOutputPath :: "'x scanner \<Rightarrow> string"
  onLegComplete :: "'x simulation \<Rightarrow> 'x simulation"

definition invoke :: "call \<Rightarrow> 'x simulation \<Rightarrow> 'x simulation" where
  \<comment> \<open>Record one outgoing call in the trace.\<close>
  "invoke c s = s\<lparr>calls := calls s @ [c]\<rparr>"

definition on_scanner :: "('x scanner \<Rightarrow> 'x scanner) \<Rightarrow> 'x simulation \<Rightarrow> 'x simulation" where
  \<comment> \<open>Apply the effect of a collaborator call to the scanner aggregate.\<close>
  "on_scanner f s = s\<lparr>mScanner := f (mScanner s)\<rparr>"

subsection \<open>GPS clock origin\<close>

datatype exn = Invalid_argument | Out_of_range | DateTime_failure | Std_exception

definition isspace :: "char \<Rightarrow> bool" where
  "isspace c = (c \<in> set [CHR '' '', CHR 0x09, CHR 0x0A, CHR 0x0B, CHR 0x0C, CHR 0x0D])"

definition isdigit :: "char \<Rightarrow> bool" where
  "isdigit c = (c \<in> set ''0123456789'')"

definition digit_val :: "char \<Rightarrow> int" where
  "digit_val c = int (of_char c) - 48"

definition digits_val :: "string \<Rightarrow> int" where
  "digits_val ds = foldl (\<lambda>acc c. 10 * acc + digit_val c) 0 ds"

definition stol :: "string \<Rightarrow> exn + int" where
  \<comment> \<open>\<^verbatim>\<open>std::stol(str)\<close> in base 10, with a 64-bit \<^verbatim>\<open>long\<close>: leading white space is
      skipped, a sign is optional, the longest run of digits is converted and whatever
      follows it is ignored; no digit at all throws \<^verbatim>\<open>std::invalid_argument\<close>, a value
      outside \<^verbatim>\<open>long\<close> throws \<^verbatim>\<open>std::out_of_range\<close>.\<close>
  "stol str =
     (let s1 = dropWhile isspace str;
          neg = (s1 \<noteq> [] \<and> hd s1 = CHR ''-'');
          s2 = (if s1 \<noteq> [] \<and> (hd s1 = CHR ''-'' \<or> hd s1 = CHR ''+'') then tl s1 else s1);
          ds = takeWhile isdigit s2;
          v = (if neg then - digits_val ds else digits_val ds)
      in if ds = [] then Inl Invalid_argument
         else if v < - (2 ^ 63) \<or> 2 ^ 63 - 1 < v then Inl Out_of_range
         else Inr v)"



definition days_from_civil :: "int \<Rightarrow> int \<Rightarrow> int \<Rightarrow> int" where
  \<comment> \<open>Modelled from the spec: days from 1970-01-01 to the given date of the proleptic
      Gregorian calendar, for the conversion "to POSIX seconds" of the date-time form;
      \<^verbatim>\<open>DateTimeUtils\<close> is absent.\<close>
  "days_from_civil y m d =
     (let y' = (if m \<le> 2 then y - 1 else y);
          era = y' div 400;
          yoe = y' - era * 400;
          doy = (153 * (if 2 < m then m - 3 else m + 9) + 2) div 5 + d - 1;
          doe = yoe * 365 + yoe div 4 - yoe div 100 + doy
      in era * 146097 + doe - 719468)"

definition days_in_month :: "int \<Rightarrow> int \<Rightarrow> int" where
  \<comment> \<open>Modelled from the spec: the length of a month of the Gregorian calendar, so that the
      date of the "exact" date-time literal is a date that exists; \<^verbatim>\<open>DateTimeUtils\<close> is
      absent.\<close>
  "days_in_month y m =
     (if m = 2 then (if y mod 4 = 0 \<and> (y mod 100 \<noteq> 0 \<or> y mod 400 = 0) then 29 else 28)
      else if m = 4 \<or> m = 6 \<or> m = 9 \<or> m = 11 then 30
      else 31)"

definition dateTimeStrToSeconds :: "string \<Rightarrow> exn + int" where
  \<comment> \<open>Modelled from the spec: \<^verbatim>\<open>DateTimeUtils::dateTimeStrToSeconds\<close> is absent. The spec
      accepts an exact \<^verbatim>\<open>"YYYY-MM-DD hh:mm:ss"\<close> literal, converted to POSIX seconds
      (read here as UTC), and makes every other string a parsing failure.\<close>
  "dateTimeStrToSeconds str =
     (let Y = take 4 str; M = take 2 (drop 5 str); D = take 2 (drop 8 str);
          h = take 2 (drop 11 str); mi = take 2 (drop 14 str); se = take 2 (drop 17 str)
      in if length str = 19
            \<and> str ! 4 = CHR ''-'' \<and> str ! 7 = CHR ''-'' \<and> str ! 10 = CHR '' ''
            \<and> str ! 13 = CHR '':'' \<and> str ! 16 = CHR '':''
            \<and> list_all isdigit (Y @ M @ D @ h @ mi @ se)
            \<and> 1 \<le> digits_val M \<and> digits_val M \<le> 12
            \<and> 1 \<le> digits_val D \<and> digits_val D \<le> days_in_month (digits_val Y) (digits_val M)
            \<and> digits_val h \<le> 23 \<and> digits_val mi \<le> 59 \<and> digits_val se \<le> 59
         then Inr (days_from_civil (digits_val Y) (digits_val M) (digits_val D) * 86400
                   + digits_val h * 3600 + digits_val mi * 60 + digits_val se)
         else Inl DateTime_failure)"

definition gpsStartErrorMessage :: "string \<Rightarrow> string" where
  "gpsStartErrorMessage fixed =
     ''Provided GPS start time was '' @ [CHR 0x22] @ fixed @ [CHR 0x22, CHR 0x0A]
     @ ''Please, ensure the format is either a POSIX timestamp, an empty string ''
     @ [CHR 0x0A]
     @ ''or a datetime with EXACT format: '' @ [CHR 0x22] @ ''YYYY-MM-DD hh:mm:ss''
     @ [CHR 0x22] @ '' (Don'' @ [CHR 0x27] @ ''t forget the quotes)''"

definition calcCurrentGpsTime ::
  "(string \<Rightarrow> exn + int) \<Rightarrow> int \<Rightarrow> string \<Rightarrow> call list \<times> (exn + real)" where
  \<comment> \<open>\<open>dts\<close> is \<^verbatim>\<open>DateTimeUtils::dateTimeStrToSeconds\<close> and \<open>wallClock\<close> the seconds of
      \<^verbatim>\<open>system_clock::now()\<close> since the epoch. The result carries the calls made to the
      logger. \<^verbatim>\<open>throw ex\<close> copies the caught reference at its static type, so what
      propagates is a plain \<^verbatim>\<open>std::exception\<close>. The remainder \<^verbatim>\<open>%\<close> of C++ truncates
      towards zero (\<open>smod\<close>); \<^verbatim>\<open>now\<close> is a 64-bit \<^verbatim>\<open>long\<close>, and the subtraction is
      taken without overflow.\<close>
  "calcCurrentGpsTime dts wallClock fixed =
     (case (if fixed \<noteq> ''''
            then (if CHR '':'' \<in> set fixed then dts fixed else stol fixed)
            else Inr wallClock) of
        Inl ex \<Rightarrow> ([LogErr (gpsStartErrorMessage fixed)], Inl Std_exception)
      | Inr now \<Rightarrow> ([], Inr (real_of_int ((now - 315964809) smod 604800) * 1000000000)))"


subsection \<open>Preparation and the simulation step\<close>

definition setSimFrequency :: "real \<Rightarrow> 'x simulation \<Rightarrow> 'x simulation" where
  \<comment> \<open>Modelled from the spec: \<^verbatim>\<open>Simulation::setSimFrequency\<close> and the step loop are absent.
      The spec sets the period "from 1/pulseFrequency scaled by the inverse of
      SpeedFactor".\<close>
  "setSimFrequency hz s = s\<lparr>period := (1 / hz) * (1 / mSimSpeedFactor s)\<rparr>"

definition double_to_int :: "real \<Rightarrow> int" where
  \<comment> \<open>The implicit conversion of a \<^verbatim>\<open>double\<close> argument to an \<^verbatim>\<open>int\<close> parameter:
      truncation towards zero (values outside \<^verbatim>\<open>int\<close> are undefined in C++).\<close>
  "double_to_int x = (if 0 \<le> x then \<lfloor>x\<rfloor> else \<lceil>x\<rceil>)"

definition prepareSimulation :: "'x env \<Rightarrow> int \<Rightarrow> 'x simulation \<Rightarrow> 'x simulation" where
  "prepareSimulation E simFrequency_hz s =
     (let s = s\<lparr>finished := False\<rparr>;
          hz = getPulseFreq_Hz E (mScanner s);
          s = on_scanner (platform_prepareSimulation E hz) (invoke (PlatformPrepareSimulation hz) s);
          s = on_scanner (scanner_prepareSimulation E) (invoke ScannerPrepareSimulation s);
          s = on_scanner (buildScanningPulseProcess E (parallelizationStrategy s))
                (invoke (BuildScanningPulseProcess (parallelizationStrategy s)) s);
          s = setSimFrequency (getPulseFreq_Hz E (mScanner s)) s;
          s = s\<lparr>currentStep := 0\<rparr>;
          s = s\<lparr>stepGpsTime_ns := 1000000000 * period s\<rparr>
      in on_scanner (scene_prepareSimulation E simFrequency_hz)
           (invoke (ScenePrepareSimulation simFrequency_hz) s))"

definition doSimStep :: "'x env \<Rightarrow> 'x simulation \<Rightarrow> 'x simulation" where
  "doSimStep E s =
     (if rotateCompleted E (mScanner s) \<and> waypointReached E (mScanner s)
      then onLegComplete E (invoke OnLegComplete s)
      else
        let hz = getPulseFreq_Hz E (mScanner s);
            s = on_scanner (platform_doSimStep E hz) (invoke (PlatformDoSimStep hz) s);
            s = on_scanner (scanner_doSimStep E (mCurrentLegIndex s) (currentGpsTime_ns s))
                  (invoke (ScannerDoSimStep (mCurrentLegIndex s) (currentGpsTime_ns s)) s);
            s = on_scanner (scene_doSimStep E) (invoke SceneDoSimStep s);
            s = s\<lparr>currentGpsTime_ns := currentGpsTime_ns s + stepGpsTime_ns s\<rparr>
        in if currentGpsTime_ns s > 604800000000000
           then s\<lparr>currentGpsTime_ns := currentGpsTime_ns s - 604800000000000\<rparr>
           else s)"

definition doStep :: "'x env \<Rightarrow> 'x simulation \<Rightarrow> 'x simulation" where
  \<comment> \<open>Modelled from the spec: the step loop (\<^verbatim>\<open>stepLoop\<close>) is absent. The constructor binds
      it to \<^verbatim>\<open>doSimStep\<close>; the spec gives it "a single do-one-step operation" and a
      monotonically increasing step counter.\<close>
  "doStep E s = (let s = doSimStep E s in s\<lparr>currentStep := currentStep s + 1\<rparr>)"

subsection \<open>Speed factor\<close>

definition setSimSpeedFactor :: "real \<Rightarrow> 'x simulation \<Rightarrow> 'x simulation" where
  "setSimSpeedFactor factor s =
     (let factor = (if factor \<le> 0 then 1 / 10000 else factor);
          factor = (if factor > 10000 then 10000 else factor);
          s = s\<lparr>mSimSpeedFactor := factor\<rparr>
      in invoke (LogInfoSimSpeed (mSimSpeedFactor s)) s)"

definition clamp_spec :: "real \<Rightarrow> real \<Rightarrow> real \<Rightarrow> real" where
  \<comment> \<open>The clamp of the spec's words: the value limited to the interval \<open>[lo, hi]\<close>.\<close>
  "clamp_spec lo hi x = max lo (min hi x)"

subsection \<open>Main loop and shutdown\<close>

definition mwOutPath :: "'x env \<Rightarrow> 'x simulation \<Rightarrow> string" where
  "mwOutPath E s =
     (if exportToFile s then getMeasurementWriterOutputPath E (mScanner s) else '''')"

definition invokeCallback :: "'x env \<Rightarrow> 'x simulation \<Rightarrow> 'x simulation" where
  \<comment> \<open>\<^verbatim>\<open>(*callback)(*cycleMeasurements, *cycleTrajectories, mwOutPath)\<close>: the call is
      recorded with the buffers as they are; the callback is taken to read them.\<close>
  "invokeCallback E s =
     invoke (Callback (cycleMeasurements (mScanner s)) (cycleTrajectories (mScanner s))
               (mwOutPath E s)) s"

definition clearCycleBuffers :: "'x simulation \<Rightarrow> 'x simulation" where
  "clearCycleBuffers s =
     on_scanner (\<lambda>sc. sc\<lparr>cycleMeasurements := [], cycleTrajectories := []\<rparr>) s"

definition shutdown :: "'x env \<Rightarrow> 'x simulation \<Rightarrow> 'x simulation" where
  "shutdown E s =
     (let s = s\<lparr>finished := True\<rparr>
      in if callback s \<noteq> None \<and> callbackFrequency s > 0
         then invoke UnlockCycleMeasurementsMutex
                (invokeCallback E (invoke LockCycleMeasurementsMutex s))
         else s)"

definition loopBody :: "'x env \<Rightarrow> 64 word \<times> 'x simulation \<Rightarrow> 64 word \<times> 'x simulation" where
  \<comment> \<open>One iteration of the \<^verbatim>\<open>while\<close> loop of \<^verbatim>\<open>start\<close>; \<open>iter\<close> is the local
      \<^verbatim>\<open>size_t\<close> counter, 64 bits wide, and \<open>+\<close> and \<open>-\<close> on it wrap. The pause mutex
      taken and released at \<^verbatim>\<open>iter == 1\<close> only blocks a paused run and leaves no trace.\<close>
  "loopBody E p =
     (let iter = fst p;
          s = doStep E (snd p);
          iter = iter + 1
      in if iter - 1 = callbackFrequency s
         then
           let s = (if callback s \<noteq> None
                    then invoke UnlockCycleMeasurementsMutex
                           (clearCycleBuffers
                             (invokeCallback E (invoke LockCycleMeasurementsMutex s)))
                    else s)
           in (1, invoke NotifyAll s)
         else (iter, s))"

partial_function (option) mainLoop ::
  "'x env \<Rightarrow> 64 word \<times> 'x simulation \<Rightarrow> (64 word \<times> 'x simulation) option" where
  "mainLoop E p = (if mStopped (snd p) then Some p else mainLoop E (loopBody E p))"

declare mainLoop.simps [code]

definition finishMainLoop :: "'x env \<Rightarrow> 'x simulation \<Rightarrow> 'x simulation" where
  \<comment> \<open>\<^verbatim>\<open>start\<close> after the loop: the reports, whose arguments are wall-clock durations,
      the notification of the scanner, and \<^verbatim>\<open>shutdown\<close>.\<close>
  "finishMainLoop E s =
     (let s = invoke PreFinishReport s;
          s = on_scanner (onSimulationFinished E) (invoke OnSimulationFinished s);
          s = invoke PostFinishReport s
      in shutdown E s)"

definition start :: "'x env \<Rightarrow> 'x simulation \<Rightarrow> 'x simulation option" where
  "start E s =
     (let s = invoke PreStartReport s;
          s = prepareSimulation E (double_to_int (getPulseFreq_Hz E (mScanner s))) s
      in case mainLoop E (1, s) of
           None \<Rightarrow> None
         | Some p \<Rightarrow> Some (finishMainLoop E (snd p)))"

definition callbackCount :: "call list \<Rightarrow> nat" where
  "callbackCount cs = length (filter (\<lambda>c. case c of Callback m t p \<Rightarrow> True | _ \<Rightarrow> False) cs)"

subsection \<open>A small survey to run the Controller on\<close>

text \<open>
  The collaborators of the example count the scanner steps in \<open>priv\<close>: every scanner
  step appends one measurement and one trajectory record, the pulse frequency is 1 Hz, the
  leg is complete from the third scanner step on, and the handler stops the run.
\<close>

definition demoEnv :: "nat env" where
  "demoEnv =
     \<lparr> getPulseFreq_Hz = (\<lambda>sc. 1),
       rotateCompleted = (\<lambda>sc. 3 \<le> priv sc),
       waypointReached = (\<lambda>sc. True),
       platform_prepareSimulation = (\<lambda>hz sc. sc),
       scanner_prepareSimulation = (\<lambda>sc. sc),
       buildScanningPulseProcess = (\<lambda>strategy sc. sc),
       scene_prepareSimulation = (\<lambda>hz sc. sc),
       platform_doSimStep = (\<lambda>hz sc. sc),
       scanner_doSimStep = (\<lambda>leg t sc.
          sc\<lparr>cycleMeasurements := cycleMeasurements sc @ [priv sc],
             cycleTrajectories := cycleTrajectories sc @ [priv sc],
             priv := priv sc + 1\<rparr>),
       scene_doSimStep = (\<lambda>sc. sc),
       onSimulationFinished = (\<lambda>sc. sc),
       getMeasurementWriterOutputPath = (\<lambda>sc. ''out.xyz''),
       onLegComplete = (\<lambda>s. s\<lparr>mStopped := True\<rparr>) \<rparr>"

definition demoInit :: "nat simulation" where
  "demoInit =
     \<lparr> parallelizationStrategy = 0,
       fixedGpsTimeStart = '''',
       mScanner = \<lparr> cycleMeasurements = [], cycleTrajectories = [], priv = 0 \<rparr>,
       mCurrentLegIndex = 0,
       currentGpsTime_ns = 0,
       stepGpsTime_ns = 0,
       currentStep = 0,
       period = 0,
       mSimSpeedFactor = 1,
       mStopped = False,
       finished = False,
       exportToFile = False,
       callback = None,
       callbackFrequency = 0,
       calls = [] \<rparr>"

definition demoSurvey :: "nat simulation" where
  \<comment> \<open>A callback is registered, to be delivered every five steps, with file export on.\<close>
  "demoSurvey = demoInit\<lparr>exportToFile := True, callback := Some (), callbackFrequency := 5\<rparr>"

definition demoPrepared :: "nat simulation" where
  \<comment> \<open>The example as \<^verbatim>\<open>start\<close> hands it to the main loop.\<close>
  "demoPrepared = prepareSimulation demoEnv 1 (invoke PreStartReport demoSurvey)"

section \<open>Properties of the radiometric kernel\<close>

lemma legacy_beam_width_square:
  assumes "lambda \<noteq> 0" "w0 \<noteq> 0" "R0 * R0 + R * R \<noteq> 0"
  shows "(w0 * sqrt ((lambda * R0) / (pi * w0 * w0) * ((lambda * R0) / (pi * w0 * w0))
                     + (lambda * R) / (pi * w0 * w0) * ((lambda * R) / (pi * w0 * w0))))
         * (w0 * sqrt ((lambda * R0) / (pi * w0 * w0) * ((lambda * R0) / (pi * w0 * w0))
                     + (lambda * R) / (pi * w0 * w0) * ((lambda * R) / (pi * w0 * w0))))
         = lambda * lambda * (R0 * R0 + R * R) / (pi * pi * w0 * w0)"
proof -
  let ?d = "pi * w0 * w0"
  let ?q = "(lambda * R0) / ?d * ((lambda * R0) / ?d) + (lambda * R) / ?d * ((lambda * R) / ?d)"
  have nn: "0 \<le> ?q" by simp
  have "(w0 * sqrt ?q) * (w0 * sqrt ?q) = w0 * w0 * (sqrt ?q * sqrt ?q)"
    by (simp only: mult_ac)
  also have "\<dots> = w0 * w0 * ?q"
    using nn by (simp only: real_sqrt_mult_self abs_of_nonneg)
  also have "\<dots> = lambda * lambda * (R0 * R0 + R * R) / (pi * pi * w0 * w0)"
    using assms by (simp add: field_simps)
  finally show ?thesis .
qed

text \<open>
  The two forms of the emitted power denote the same real number whenever \<open>\<lambda> \<noteq> 0\<close>,
  \<open>w0 \<noteq> 0\<close> and \<open>R0\<^sup>2 + R\<^sup>2 \<noteq> 0\<close>. This is an identity of the formulas in exact arithmetic.
  It does not say that the two C++ functions return the same \<^verbatim>\<open>double\<close>: they round at every
  operation, in a different order, and their results differ in the last digits or, where an
  intermediate value overflows or underflows, altogether.
\<close>

lemma emitted_power_forms_agree_in_exact_arithmetic:
  assumes "lambda \<noteq> 0" "w0 \<noteq> 0" "R0\<^sup>2 + R\<^sup>2 \<noteq> 0"
  shows "calcEmittedPowerLegacy I0 lambda R R0 r w0 = calcEmittedPower I0 lambda R R0 r w0
       \<and> calcEmittedPower I0 lambda R R0 r w0
           = I0 / exp (2 * pi\<^sup>2 * r\<^sup>2 * w0\<^sup>2 / (lambda\<^sup>2 * (R0\<^sup>2 + R\<^sup>2)))"
proof -
  have nz: "R0 * R0 + R * R \<noteq> 0" using assms(3) by (simp add: power2_eq_square)
  have "(- 2 * r * r) / (lambda * lambda * (R0 * R0 + R * R) / (pi * pi * w0 * w0))
        = - (PI_SQUARED_2 * r * r * w0 * w0 / (lambda * lambda * (R0 * R0 + R * R)))"
    unfolding PI_SQUARED_2_def using assms(1,2) nz by (simp add: field_simps)
  then have "calcEmittedPowerLegacy I0 lambda R R0 r w0 = calcEmittedPower I0 lambda R R0 r w0"
    unfolding calcEmittedPowerLegacy_def calcEmittedPower_def Let_def
      legacy_beam_width_square [OF assms(1,2) nz]
    by (simp only: exp_minus divide_inverse)
  moreover have "calcEmittedPower I0 lambda R R0 r w0
      = I0 / exp (2 * pi\<^sup>2 * r\<^sup>2 * w0\<^sup>2 / (lambda\<^sup>2 * (R0\<^sup>2 + R\<^sup>2)))"
    unfolding calcEmittedPower_def PI_SQUARED_2_def Let_def
    by (simp add: power2_eq_square mult_ac)
  ultimately show ?thesis by simp
qed

text \<open>
  In exact arithmetic the atmospheric factor of non-negative arguments lies in \<open>(0, 1]\<close> and
  does not grow with either argument. The \<^verbatim>\<open>double\<close> the C++ function returns is 0 once
  \<open>exp\<close> underflows (for \<open>R \<cdot> ae\<close> above about 372.6), so of these bounds only \<open>[0, 1]\<close>,
  the range the source comment gives, carries over to the program.
\<close>

lemma atmospheric_factor_in_exact_arithmetic:
  assumes "0 \<le> R" "R \<le> R'" "0 \<le> ae" "ae \<le> ae'"
  shows "calcAtmosphericFactor R ae = exp (- 2 * R * ae)
       \<and> 0 < calcAtmosphericFactor R ae \<and> calcAtmosphericFactor R ae \<le> 1
       \<and> calcAtmosphericFactor R' ae \<le> calcAtmosphericFactor R ae
       \<and> calcAtmosphericFactor R ae' \<le> calcAtmosphericFactor R ae"
proof -
  have "0 \<le> R * ae" using assms by simp
  moreover have "R * ae \<le> R' * ae" using assms by (simp add: mult_right_mono)
  moreover have "R * ae \<le> R * ae'" using assms by (simp add: mult_left_mono)
  ultimately show ?thesis
    unfolding calcAtmosphericFactor_def by simp
qed

text \<open>
  Claim C9. For an incidence angle \<open>\<phi>\<close> in \<open>[0, \<pi>]\<close>, a specularity \<open>ks\<close> in \<open>[0, 1]\<close> and
  an exponent \<open>Ns \<ge> 0\<close>, the reflectance is the diffuse term \<open>(1 - ks) cos \<phi>\<close> plus the
  specular term \<open>ks |cos \<phi>*|\<^sup>N\<^sup>s\<close>, with \<open>\<phi>* = \<phi>\<close> for \<open>\<phi> \<le> \<pi>/2\<close> and \<open>\<phi>* = \<phi> - \<pi>/2\<close>
  otherwise (a power with exponent 0 is 1). At \<open>\<phi> = 0\<close>, \<open>ks = 0\<close> it is 1; at \<open>\<phi> = 0\<close>,
  \<open>ks = 1\<close> the diffuse term vanishes and it is the specular term.
\<close>

theorem phongBDRF_diffuse_plus_specular:
  assumes "0 \<le> phi" "phi \<le> pi" "0 \<le> ks" "ks \<le> 1" "0 \<le> Ns"
  shows "phongBDRF phi ks Ns =
           (1 - ks) * cos phi
           + ks * (if Ns = 0 then 1
                   else \<bar>cos (if phi \<le> pi / 2 then phi else phi - pi / 2)\<bar> powr Ns)
       \<and> phongBDRF 0 0 Ns = 1
       \<and> phongBDRF 0 1 Ns = (if Ns = 0 then 1 else \<bar>cos 0\<bar> powr Ns)
       \<and> (1 - 1) * cos (0::real) = 0"
  unfolding phongBDRF_def pow_d_def PI_HALF_def Let_def by simp

theorem phongBDRF_diffuse_plus_specular_witness:
  "(0::real) \<le> pi / 3 \<and> pi / 3 \<le> pi \<and> (0::real) \<le> 1 / 2 \<and> (1::real) / 2 \<le> 1
   \<and> (0::real) \<le> 1 \<and> phongBDRF (pi / 3) (1 / 2) 1 = 1 / 2"
  using phongBDRF_diffuse_plus_specular [of "pi / 3" "1 / 2" 1] by (simp add: cos_60)

text \<open>
  Claim C10. Inside the documented domain the reflectance can be negative: at \<open>\<phi> = \<pi>\<close>,
  \<open>ks = 0\<close> it is \<open>cos \<pi> = -1\<close>, whatever the exponent.
\<close>

theorem phongBDRF_negative_in_domain:
  "0 \<le> pi \<and> pi \<le> pi \<and> (0::real) \<le> 0 \<and> (0::real) \<le> 1
   \<and> phongBDRF pi 0 Ns = cos pi \<and> phongBDRF pi 0 Ns = - 1 \<and> phongBDRF pi 0 Ns < 0"
  unfolding phongBDRF_def pow_d_def PI_HALF_def Let_def by simp

section \<open>Properties of the Controller\<close>

lemmas demo_defs = demoEnv_def demoInit_def demoSurvey_def

lemmas controller_defs = start_def prepareSimulation_def setSimFrequency_def double_to_int_def
  doStep_def doSimStep_def loopBody_def finishMainLoop_def shutdown_def invokeCallback_def
  clearCycleBuffers_def mwOutPath_def invoke_def on_scanner_def Let_def

subsection \<open>The clock\<close>

lemma doSimStep_clock_at_most_week:
  assumes "0 \<le> currentGpsTime_ns s" "currentGpsTime_ns s \<le> 604800000000000"
    and "0 \<le> stepGpsTime_ns s" "stepGpsTime_ns s < 604800000000000"
    and "\<not> (rotateCompleted E (mScanner s) \<and> waypointReached E (mScanner s))"
  shows "0 \<le> currentGpsTime_ns (doSimStep E s)
       \<and> currentGpsTime_ns (doSimStep E s) \<le> 604800000000000"
  using assms by (auto simp add: doSimStep_def invoke_def on_scanner_def Let_def)

text \<open>
  Claim C1. The claim bounds the clock by \<open>0 \<le> t < 604800 \<times> 10\<^sup>9\<close> after construction and
  after every step. The code does not keep this bound. A clock built from the fixed start
  time \<^verbatim>\<open>"316569608"\<close> starts at 604799 s of the week; with a step of \<open>10\<^sup>9\<close> ns the next
  step lands on the week length itself, which the strict comparison \<^verbatim>\<open>>\<close> does not wrap.
  A clock built from the fixed start time \<^verbatim>\<open>"0"\<close>, before the GPS epoch, starts negative,
  since \<^verbatim>\<open>%\<close> truncates towards zero.
\<close>

theorem clock_leaves_week_interval:
  "snd (calcCurrentGpsTime dateTimeStrToSeconds 0 ''316569608'') = Inr 604799000000000
   \<and> currentGpsTime_ns
       (doSimStep demoEnv
          (demoInit\<lparr>currentGpsTime_ns := 604799000000000, stepGpsTime_ns := 1000000000\<rparr>))
       = 604800000000000
   \<and> \<not> ((604800000000000::real) < 604800 * 10 ^ 9)
   \<and> snd (calcCurrentGpsTime dateTimeStrToSeconds 0 ''0'') = Inr (- 259209000000000)
   \<and> \<not> ((0::real) \<le> - 259209000000000)"
  by (simp add: calcCurrentGpsTime_def stol_def isspace_def isdigit_def digits_val_def
        digit_val_def signed_modulo_int_def demo_defs doSimStep_def invoke_def
        on_scanner_def Let_def)



lemma sign_not_space: "\<not> isspace CHR ''-''" "\<not> isspace CHR ''+''"
  by (simp_all add: isspace_def)

lemma dropWhile_isspace_prefix:
  assumes "list_all isspace ws" "xs = [] \<or> \<not> isspace (hd xs)"
  shows "dropWhile isspace (ws @ xs) = xs"
proof -
  have "dropWhile isspace (ws @ xs) = dropWhile isspace xs"
    using assms(1) by (simp add: dropWhile_append2 list_all_iff)
  also have "\<dots> = xs" using assms(2) by (cases xs) auto
  finally show ?thesis .
qed



text \<open>A string with no digit after its white space and sign is refused.\<close>

lemma stol_no_digit:
  assumes ws: "list_all isspace ws"
    and sg: "sg = [] \<or> sg = ''+'' \<or> sg = ''-''"
    and rest: "rest = [] \<or> \<not> isdigit (hd rest)"
    and bare: "sg = [] \<Longrightarrow> rest = [] \<or>
                 (\<not> isspace (hd rest) \<and> hd rest \<noteq> CHR ''+'' \<and> hd rest \<noteq> CHR ''-'')"
  shows "stol (ws @ sg @ rest) = Inl Invalid_argument"
proof -
  have tw: "takeWhile isdigit rest = []" using rest by (cases rest) auto
  from sg show ?thesis
  proof (elim disjE)
    assume e: "sg = []"
    have s1: "dropWhile isspace (ws @ rest) = rest"
      using dropWhile_isspace_prefix [OF ws, of rest] bare [OF e] by auto
    show ?thesis
      unfolding stol_def using e s1 tw bare [OF e] by (auto simp add: Let_def)
  next
    assume e: "sg = ''+''"
    have s1: "dropWhile isspace (ws @ ''+'' @ rest) = ''+'' @ rest"
      using dropWhile_isspace_prefix [OF ws, of "''+'' @ rest"] sign_not_space by simp
    show ?thesis
      unfolding stol_def using e s1 tw by (simp add: Let_def)
  next
    assume e: "sg = ''-''"
    have s1: "dropWhile isspace (ws @ ''-'' @ rest) = ''-'' @ rest"
      using dropWhile_isspace_prefix [OF ws, of "''-'' @ rest"] sign_not_space by simp
    show ?thesis
      unfolding stol_def using e s1 tw by (simp add: Let_def)
  qed
qed








subsection \<open>The speed factor\<close>

text \<open>
  Claim C2, as stated, fails: the claim stores the input clamped to \<open>[0.0001, 10000]\<close>, but
  the lower guard of the code tests \<^verbatim>\<open>factor <= 0\<close>, so the input 0.00005 is stored as
  it is.
\<close>

theorem setSimSpeedFactor_clamp_counterexample:
  "mSimSpeedFactor (setSimSpeedFactor (1 / 20000) demoInit) = 1 / 20000
   \<and> mSimSpeedFactor (setSimSpeedFactor (1 / 20000) demoInit)
       \<noteq> clamp_spec (1 / 10000) 10000 (1 / 20000)"
  by (simp add: setSimSpeedFactor_def clamp_spec_def invoke_def Let_def demoInit_def)

text \<open>
  Claim C2, amended. The setter never fails. It stores 0.0001 for an input \<open>f \<le> 0\<close>, 10000
  for \<open>f > 10000\<close> and \<open>f\<close> itself otherwise, and logs the stored value; the stored value
  lies in \<open>(0, 10000]\<close>, and it is the clamp of \<open>f\<close> to \<open>[0.0001, 10000]\<close> whenever
  \<open>f \<le> 0\<close> or \<open>f \<ge> 0.0001\<close>.
\<close>

theorem setSimSpeedFactor_effective:
  "mSimSpeedFactor (setSimSpeedFactor f s)
     = (if f \<le> 0 then 1 / 10000 else if 10000 < f then 10000 else f)
   \<and> 0 < mSimSpeedFactor (setSimSpeedFactor f s)
   \<and> mSimSpeedFactor (setSimSpeedFactor f s) \<le> 10000
   \<and> calls (setSimSpeedFactor f s)
       = calls s @ [LogInfoSimSpeed (mSimSpeedFactor (setSimSpeedFactor f s))]
   \<and> (f \<le> 0 \<or> 1 / 10000 \<le> f \<longrightarrow>
        mSimSpeedFactor (setSimSpeedFactor f s) = clamp_spec (1 / 10000) 10000 f)"
  by (simp add: setSimSpeedFactor_def clamp_spec_def invoke_def Let_def)

theorem setSimSpeedFactor_effective_witness:
  "mSimSpeedFactor (setSimSpeedFactor 0 demoInit) = 1 / 10000
   \<and> mSimSpeedFactor (setSimSpeedFactor 20000 demoInit) = 10000
   \<and> mSimSpeedFactor (setSimSpeedFactor 5 demoInit) = 5
   \<and> ((5::real) \<le> 0 \<or> (1::real) / 10000 \<le> 5)
   \<and> mSimSpeedFactor (setSimSpeedFactor 5 demoInit) = clamp_spec (1 / 10000) 10000 5"
  using setSimSpeedFactor_effective [of 0 demoInit]
    setSimSpeedFactor_effective [of 20000 demoInit]
    setSimSpeedFactor_effective [of 5 demoInit]
  by simp

subsection \<open>The simulation step\<close>

text \<open>
  Claim C7. In a step in which the scanner head has completed its rotation and the
  platform has reached its waypoint, \<^verbatim>\<open>doSimStep\<close> calls the leg-completion handler and
  returns: the step is the handler's invocation and nothing else. Platform, scanner and
  scene receive no \<^verbatim>\<open>doSimStep\<close> call and the clock is not advanced; whatever the handler
  itself leaves alone (the clock, the trace, the collaborators) is unchanged by the step.
\<close>

theorem doSimStep_leg_completion:
  assumes "rotateCompleted E (mScanner s)" "waypointReached E (mScanner s)"
  shows "doSimStep E s = onLegComplete E (s\<lparr>calls := calls s @ [OnLegComplete]\<rparr>)
       \<and> (currentGpsTime_ns (onLegComplete E (s\<lparr>calls := calls s @ [OnLegComplete]\<rparr>))
            = currentGpsTime_ns s
          \<longrightarrow> currentGpsTime_ns (doSimStep E s) = currentGpsTime_ns s)
       \<and> (calls (onLegComplete E (s\<lparr>calls := calls s @ [OnLegComplete]\<rparr>))
            = calls s @ [OnLegComplete]
          \<longrightarrow> calls (doSimStep E s) = calls s @ [OnLegComplete])
       \<and> (mScanner (onLegComplete E (s\<lparr>calls := calls s @ [OnLegComplete]\<rparr>)) = mScanner s
          \<longrightarrow> mScanner (doSimStep E s) = mScanner s)"
  using assms by (simp add: doSimStep_def invoke_def)

theorem doSimStep_leg_completion_witness:
  "rotateCompleted demoEnv (mScanner (demoInit\<lparr>mScanner := (mScanner demoInit)\<lparr>priv := 3\<rparr>,
                                               currentGpsTime_ns := 5\<rparr>))
   \<and> waypointReached demoEnv (mScanner (demoInit\<lparr>mScanner := (mScanner demoInit)\<lparr>priv := 3\<rparr>,
                                                 currentGpsTime_ns := 5\<rparr>))
   \<and> currentGpsTime_ns
       (doSimStep demoEnv (demoInit\<lparr>mScanner := (mScanner demoInit)\<lparr>priv := 3\<rparr>,
                                    currentGpsTime_ns := 5\<rparr>)) = 5
   \<and> calls (doSimStep demoEnv (demoInit\<lparr>mScanner := (mScanner demoInit)\<lparr>priv := 3\<rparr>,
                                          currentGpsTime_ns := 5\<rparr>)) = [OnLegComplete]"
  using doSimStep_leg_completion
          [of demoEnv "demoInit\<lparr>mScanner := (mScanner demoInit)\<lparr>priv := 3\<rparr>,
                                currentGpsTime_ns := 5\<rparr>"]
  by (simp add: demo_defs)

subsection \<open>The main loop\<close>

lemma callbackCount_Nil [simp]: "callbackCount [] = 0"
  by (simp add: callbackCount_def)

lemma callbackCount_Cons [simp]:
  "callbackCount (c # cs) = (case c of Callback m t p \<Rightarrow> 1 | _ \<Rightarrow> 0) + callbackCount cs"
  by (cases c) (simp_all add: callbackCount_def)

lemma callbackCount_append [simp]:
  "callbackCount (xs @ ys) = callbackCount xs + callbackCount ys"
  by (simp add: callbackCount_def)

text \<open>
  A step leaves the callback, its frequency and the number of deliveries alone, as long
  as the leg-completion handler does.
\<close>

lemma doStep_frame:
  assumes "\<And>s. callback (onLegComplete E s) = callback s"
    and "\<And>s. callbackFrequency (onLegComplete E s) = callbackFrequency s"
    and "\<And>s. callbackCount (calls (onLegComplete E s)) = callbackCount (calls s)"
  shows "callback (doStep E s) = callback s"
    and "callbackFrequency (doStep E s) = callbackFrequency s"
    and "callbackCount (calls (doStep E s)) = callbackCount (calls s)"
  using assms
  by (simp_all add: doStep_def doSimStep_def invoke_def on_scanner_def Let_def)

text \<open>An iteration that reaches the callback frequency delivers, clears and restarts.\<close>

lemma loopBody_fire:
  assumes "fst p = callbackFrequency (doStep E (snd p))" "callback (doStep E (snd p)) \<noteq> None"
  shows "fst (loopBody E p) = 1"
    and "callbackCount (calls (snd (loopBody E p)))
           = Suc (callbackCount (calls (doStep E (snd p))))"
    and "cycleMeasurements (mScanner (snd (loopBody E p))) = []"
    and "cycleTrajectories (mScanner (snd (loopBody E p))) = []"
    and "callback (snd (loopBody E p)) = callback (doStep E (snd p))"
    and "callbackFrequency (snd (loopBody E p)) = callbackFrequency (doStep E (snd p))"
  using assms
  by (simp_all add: loopBody_def Let_def invoke_def invokeCallback_def clearCycleBuffers_def
        on_scanner_def)

lemma loopBody_skip:
  assumes "fst p \<noteq> callbackFrequency (doStep E (snd p))"
  shows "loopBody E p = (fst p + 1, doStep E (snd p))"
  using assms by (simp add: loopBody_def Let_def)

text \<open>
  The loop invariant: after \<open>k\<close> iterations the local counter is \<open>k mod N + 1\<close> and
  \<open>k div N\<close> deliveries have been made.
\<close>

lemma loop_invariant:
  fixes N :: "64 word"
  assumes h1: "\<And>s. callback (onLegComplete E s) = callback s"
    and h2: "\<And>s. callbackFrequency (onLegComplete E s) = callbackFrequency s"
    and h3: "\<And>s. callbackCount (calls (onLegComplete E s)) = callbackCount (calls s)"
    and cb: "callback s0 \<noteq> None" and fr: "callbackFrequency s0 = N" and nz: "N \<noteq> 0"
  shows "callback (snd ((loopBody E ^^ k) (1, s0))) \<noteq> None
       \<and> callbackFrequency (snd ((loopBody E ^^ k) (1, s0))) = N
       \<and> unat (fst ((loopBody E ^^ k) (1, s0))) = k mod unat N + 1
       \<and> callbackCount (calls (snd ((loopBody E ^^ k) (1, s0))))
           = callbackCount (calls s0) + k div unat N
       \<and> (0 < k \<and> k mod unat N = 0 \<longrightarrow>
            cycleMeasurements (mScanner (snd ((loopBody E ^^ k) (1, s0)))) = []
          \<and> cycleTrajectories (mScanner (snd ((loopBody E ^^ k) (1, s0)))) = [])"
proof (induction k)
  case 0
  show ?case using cb fr by simp
next
  case (Suc k)
  let ?p = "(loopBody E ^^ k) (1, s0)"
  let ?s = "doStep E (snd ?p)"
  have n0: "0 < unat N" using nz by (simp add: unat_gt_0)
  have cbs: "callback ?s \<noteq> None" and frs: "callbackFrequency ?s = N"
    and cnt: "callbackCount (calls ?s) = callbackCount (calls s0) + k div unat N"
    using Suc.IH doStep_frame [OF h1 h2 h3, of "snd ?p"] by simp_all
  have it: "unat (fst ?p) = k mod unat N + 1" using Suc.IH by simp
  have step: "(loopBody E ^^ Suc k) (1, s0) = loopBody E ?p" by simp
  show ?case
  proof (cases "fst ?p = N")
    case True
    then have "k mod unat N + 1 = unat N" using it by simp
    then have m: "Suc k mod unat N = 0" and d: "Suc k div unat N = Suc (k div unat N)"
      by (simp_all add: mod_Suc div_Suc)
    from loopBody_fire [of ?p E] True frs cbs
    show ?thesis unfolding step using cnt m d by simp
  next
    case False
    then have ne: "unat (fst ?p) \<noteq> unat N" by (simp add: word_unat_eq_iff)
    have "k mod unat N < unat N" using n0 by simp
    then have lt: "k mod unat N + 1 < unat N" using ne it by simp
    then have m: "Suc k mod unat N = k mod unat N + 1"
      and d: "Suc k div unat N = k div unat N"
      by (simp_all add: mod_Suc div_Suc)
    have "unat N < 2 ^ 64" using unsigned_less [of N] by simp
    then have "unat (fst ?p) + 1 < 2 ^ 64" using lt it by simp
    then have u: "unat (fst ?p + 1) = unat (fst ?p) + 1"
      by (simp add: unat_add_lem [THEN iffD1])
    from loopBody_skip [of ?p E] False frs
    have lb: "loopBody E ?p = (fst ?p + 1, ?s)" by simp
    show ?thesis unfolding step lb using cbs frs cnt m d u it by simp
  qed
qed

text \<open>
  The loop runs through the iterates of its body: as long as the run is not stopped, the
  loop from the start is the loop from the \<open>k\<close>-th iterate.
\<close>

lemma mainLoop_unroll:
  assumes "\<And>j. j < k \<Longrightarrow> \<not> mStopped (snd ((loopBody E ^^ j) p))"
  shows "mainLoop E p = mainLoop E ((loopBody E ^^ k) p)"
  using assms
proof (induction k)
  case 0
  show ?case by simp
next
  case (Suc k)
  have "mainLoop E p = mainLoop E ((loopBody E ^^ k) p)"
    using Suc by simp
  also have "\<dots> = mainLoop E (loopBody E ((loopBody E ^^ k) p))"
    using Suc.prems [of k] by (subst mainLoop.simps) simp
  finally show ?case by simp
qed

text \<open>
  Claim C4. In the main loop of \<^verbatim>\<open>start\<close>, with a callback registered and
  \<open>callbackFrequency = N > 0\<close>, and a leg-completion handler that leaves the callback, its
  frequency and the deliveries alone: after \<open>k\<close> completed steps exactly \<open>k div N\<close>
  callback invocations have occurred, one per \<open>N\<close> steps, and at the end of every
  iteration that delivers (every \<open>N\<close>-th) both cycle buffers are empty.
\<close>

theorem callback_cadence:
  fixes N :: "64 word"
  assumes "\<And>s. callback (onLegComplete E s) = callback s"
    and "\<And>s. callbackFrequency (onLegComplete E s) = callbackFrequency s"
    and "\<And>s. callbackCount (calls (onLegComplete E s)) = callbackCount (calls s)"
    and "callback s0 \<noteq> None" and "callbackFrequency s0 = N" and "N \<noteq> 0"
  shows "callbackCount (calls (snd ((loopBody E ^^ k) (1, s0))))
           = callbackCount (calls s0) + k div unat N
       \<and> (0 < k \<and> k mod unat N = 0 \<longrightarrow>
            cycleMeasurements (mScanner (snd ((loopBody E ^^ k) (1, s0)))) = []
          \<and> cycleTrajectories (mScanner (snd ((loopBody E ^^ k) (1, s0)))) = [])"
  using loop_invariant [OF assms, of k] by simp

theorem callback_cadence_witness:
  "callback (demoSurvey\<lparr>callbackFrequency := 2\<rparr>) \<noteq> None
   \<and> callbackFrequency (demoSurvey\<lparr>callbackFrequency := 2\<rparr>) = 2 \<and> (2::64 word) \<noteq> 0
   \<and> callbackCount (calls (snd ((loopBody demoEnv ^^ 4)
                                   (1, demoSurvey\<lparr>callbackFrequency := 2\<rparr>)))) = 2
   \<and> cycleMeasurements (mScanner (snd ((loopBody demoEnv ^^ 4)
                                   (1, demoSurvey\<lparr>callbackFrequency := 2\<rparr>)))) = []
   \<and> cycleTrajectories (mScanner (snd ((loopBody demoEnv ^^ 4)
                                   (1, demoSurvey\<lparr>callbackFrequency := 2\<rparr>)))) = []"
proof -
  have h1: "\<And>s. callback (onLegComplete demoEnv s) = callback s"
    and h2: "\<And>s. callbackFrequency (onLegComplete demoEnv s) = callbackFrequency s"
    and h3: "\<And>s. callbackCount (calls (onLegComplete demoEnv s)) = callbackCount (calls s)"
    by (simp_all add: demoEnv_def)
  have h4: "callback (demoSurvey\<lparr>callbackFrequency := 2\<rparr>) \<noteq> None"
    and h5: "callbackFrequency (demoSurvey\<lparr>callbackFrequency := 2\<rparr>) = 2"
    and h6: "(2::64 word) \<noteq> 0"
    by (simp_all add: demoSurvey_def)
  have c0: "callbackCount (calls (demoSurvey\<lparr>callbackFrequency := 2\<rparr>)) = 0"
    by (simp add: demoSurvey_def demoInit_def)
  show ?thesis
    using callback_cadence [OF h1 h2 h3 h4 h5 h6, of 4] h4 h5 c0 by simp
qed

subsection \<open>The end of the run\<close>

text \<open>
  Claim C3, as stated, fails. In the run of the example the leg completes after three
  scanner steps and the handler stops the run, before the fifth step would deliver. After
  \<^verbatim>\<open>start\<close> has returned the three records are still in both buffers: the terminal
  flush does not clear them. And the scanner is notified of completion before the
  callback is invoked, not after.
\<close>

theorem start_terminal_flush_counterexample:
  "start demoEnv demoSurvey \<noteq> None
   \<and> cycleMeasurements (mScanner (the (start demoEnv demoSurvey))) = [0, 1, 2]
   \<and> cycleTrajectories (mScanner (the (start demoEnv demoSurvey))) = [0, 1, 2]
   \<and> drop 15 (calls (the (start demoEnv demoSurvey)))
       = [PreFinishReport, OnSimulationFinished, PostFinishReport,
          LockCycleMeasurementsMutex, Callback [0, 1, 2] [0, 1, 2] ''out.xyz'',
          UnlockCycleMeasurementsMutex]"
  by (simp add: demo_defs controller_defs mainLoop.simps)

text \<open>
  Claim C3, amended. When the main loop of \<^verbatim>\<open>start\<close> exits, the Controller reports,
  notifies the scanner of completion, reports again and then runs \<^verbatim>\<open>shutdown\<close>, which
  marks the run finished and, if a callback is registered and the callback frequency is
  positive, invokes the callback once under the buffer mutex with the measurement buffer,
  the trajectory buffer and the resolved output path (empty when file export is off).
\<close>

theorem start_terminal_flush:
  assumes "mainLoop E (1, prepareSimulation E
                            (double_to_int (getPulseFreq_Hz E (mScanner s)))
                            (invoke PreStartReport s)) = Some p"
  shows "start E s = Some (finishMainLoop E (snd p))
       \<and> finished (finishMainLoop E (snd p))
       \<and> calls (finishMainLoop E (snd p))
           = calls (snd p) @ [PreFinishReport, OnSimulationFinished, PostFinishReport]
             @ (if callback (snd p) \<noteq> None \<and> 0 < callbackFrequency (snd p)
                then [LockCycleMeasurementsMutex,
                      Callback (cycleMeasurements (onSimulationFinished E (mScanner (snd p))))
                        (cycleTrajectories (onSimulationFinished E (mScanner (snd p))))
                        (if exportToFile (snd p)
                         then getMeasurementWriterOutputPath E
                                (onSimulationFinished E (mScanner (snd p)))
                         else ''''),
                      UnlockCycleMeasurementsMutex]
                else [])"
proof -
  have "start E s = Some (finishMainLoop E (snd p))"
    using assms by (simp add: start_def Let_def invoke_def)
  moreover have "finished (finishMainLoop E (snd p))"
    by (simp add: finishMainLoop_def shutdown_def invokeCallback_def invoke_def
          on_scanner_def Let_def)
  moreover have "calls (finishMainLoop E (snd p))
           = calls (snd p) @ [PreFinishReport, OnSimulationFinished, PostFinishReport]
             @ (if callback (snd p) \<noteq> None \<and> 0 < callbackFrequency (snd p)
                then [LockCycleMeasurementsMutex,
                      Callback (cycleMeasurements (onSimulationFinished E (mScanner (snd p))))
                        (cycleTrajectories (onSimulationFinished E (mScanner (snd p))))
                        (if exportToFile (snd p)
                         then getMeasurementWriterOutputPath E
                                (onSimulationFinished E (mScanner (snd p)))
                         else ''''),
                      UnlockCycleMeasurementsMutex]
                else [])"
    by (simp add: finishMainLoop_def shutdown_def invokeCallback_def mwOutPath_def
          invoke_def on_scanner_def Let_def)
  ultimately show ?thesis by simp
qed

lemma funpow_four: "(f ^^ 4) x = f (f (f (f x)))"
  by (simp add: eval_nat_numeral)

theorem start_terminal_flush_witness:
  "mainLoop demoEnv (1, demoPrepared) = Some ((loopBody demoEnv ^^ 4) (1, demoPrepared))
   \<and> start demoEnv demoSurvey
       = Some (finishMainLoop demoEnv (snd ((loopBody demoEnv ^^ 4) (1, demoPrepared))))
   \<and> finished (finishMainLoop demoEnv (snd ((loopBody demoEnv ^^ 4) (1, demoPrepared))))
   \<and> drop 15 (calls (finishMainLoop demoEnv
                         (snd ((loopBody demoEnv ^^ 4) (1, demoPrepared)))))
       = [PreFinishReport, OnSimulationFinished, PostFinishReport,
          LockCycleMeasurementsMutex, Callback [0, 1, 2] [0, 1, 2] ''out.xyz'',
          UnlockCycleMeasurementsMutex]"
proof -
  have pre: "prepareSimulation demoEnv
               (double_to_int (getPulseFreq_Hz demoEnv (mScanner demoSurvey)))
               (invoke PreStartReport demoSurvey) = demoPrepared"
    by (simp add: demoPrepared_def demoEnv_def double_to_int_def)
  have run: "mainLoop demoEnv (1, demoPrepared)
               = Some ((loopBody demoEnv ^^ 4) (1, demoPrepared))"
    unfolding funpow_four
    by (simp add: demoPrepared_def demo_defs controller_defs mainLoop.simps)
  have hyp: "mainLoop demoEnv (1, prepareSimulation demoEnv
                            (double_to_int (getPulseFreq_Hz demoEnv (mScanner demoSurvey)))
                            (invoke PreStartReport demoSurvey))
               = Some ((loopBody demoEnv ^^ 4) (1, demoPrepared))"
    using pre run by simp
  let ?q = "snd ((loopBody demoEnv ^^ 4) (1, demoPrepared))"
  from start_terminal_flush [OF hyp]
  have st: "start demoEnv demoSurvey = Some (finishMainLoop demoEnv ?q)"
    and fi: "finished (finishMainLoop demoEnv ?q)"
    by blast+
  have tr: "drop 15 (calls (finishMainLoop demoEnv ?q))
              = [PreFinishReport, OnSimulationFinished, PostFinishReport,
                 LockCycleMeasurementsMutex, Callback [0, 1, 2] [0, 1, 2] ''out.xyz'',
                 UnlockCycleMeasurementsMutex]"
    unfolding funpow_four
    by (simp add: demoPrepared_def demo_defs controller_defs)
  show ?thesis using run st fi tr by simp
qed

end
